theory Spec2Isabelle
  imports Main "HOL-Library.Word"
begin

section \<open>The MQTT client of the sensor-data server (package mqtt, file mqtt.go)\<close>

text \<open>
  The Go package wraps the paho MQTT client. The paho library, the crypto packages, the
  logger and the server's API are not part of the package: the model records what the
  package asks of them (transport calls, log lines, goroutines, tickers) and takes their
  answers as arguments (tokens, file contents, the answer of \<open>IsConnected\<close>).
\<close>

subsection \<open>Go values\<close>

type_synonym byte = "8 word"

text \<open>A Go \<open>error\<close> value is represented by its message.\<close>

type_synonym err = string

text \<open>A \<open>time.Duration\<close> is an int64 number of nanoseconds; multiplication wraps.\<close>

type_synonym Duration = "64 word"

definition Second :: Duration where
  "Second = 1000000000"

text \<open>\<open>time.Duration(n)\<close> for a Go int \<open>n\<close>.\<close>

definition DurationOf :: "int \<Rightarrow> Duration" where
  "DurationOf n = word_of_int n"

text \<open>
  Format strings are kept with their arguments (\<open>fmt.Sprintf\<close>, \<open>logger.Infof\<close>);
  only \<open>fmt.Errorf\<close> with a single \<open>%s\<close> is rendered, since its result is a message
  that is passed on.
\<close>

datatype arg = Str string | Num int | Bool bool | Byte byte

datatype fmt = Sprintf string "arg list"

datatype logentry =
    LogInfof string "arg list"
  | LogWarnf string "arg list"
  | LogErrorf string "arg list"
  | LogError err

text \<open>
  The outcome of a call that may panic. A panic ends the process; \<open>Panics l\<close> keeps the
  lines \<open>l\<close> that the process had logged by then (a call that does not see the log gives
  the empty list, and the method that made the call fills the lines in).
\<close>

datatype 'a go = Panics "logentry list" | Returns 'a

subsection \<open>What the package is handed from outside\<close>

text \<open>\<open>models.Topic\<close>: a path and a handler (a function of the server, named by a number).\<close>

record Topic =
  Path :: string
  Handler :: nat

text \<open>\<open>models.API\<close>, as far as the package uses it. \<open>GetTopics\<close> returns a pointer to a
  slice; \<open>None\<close> is the nil pointer.\<close>

record API =
  GetTopics :: "string \<Rightarrow> Topic list option"

text \<open>\<open>paho.Message\<close>, as far as the package reads it.\<close>

record Message =
  Topic :: string
  Payload :: "byte list"

text \<open>A paho token once it is complete: what \<open>Wait()\<close> returned and what \<open>Error()\<close>
  returns (\<open>None\<close> is nil).\<close>

record Token =
  Wait :: bool
  Error :: "err option"

record ConnectToken = Token +
  SessionPresent :: bool

text \<open>\<open>configuration.MQTTConfig\<close>; the fields \<open>CreateMQTTClient\<close> reads.\<close>

record MQTTConfig =
  cfgVerbose :: bool
  cfgHost :: string
  cfgPort :: int
  cfgPrefix :: string
  cfgClientID :: string
  cfgSubscriptionQos :: byte
  cfgPersistent :: bool
  cfgOrder :: bool
  cfgSSL :: bool
  cfgUsername :: string
  cfgPassword :: string
  cfgCaCertFile :: string
  cfgClientCertFile :: string
  cfgPrivateKeyFile :: string
  cfgKeepAliveSec :: int
  cfgPingTimeoutSec :: int

subsection \<open>TLS configuration and client options\<close>

text \<open>\<open>tls.Certificate\<close>: the chain (DER blocks) and the parsed leaf.\<close>

record tlsCertificate =
  Certificate :: "byte list list"
  Leaf :: "byte list option"

text \<open>\<open>tls.Config\<close>: \<open>RootCAs\<close> is nil or a pool of certificates.\<close>

record tlsConfig =
  RootCAs :: "byte list list option"
  Certificates :: "tlsCertificate list"

text \<open>The two methods the package registers as callbacks.\<close>

datatype callback = ConnectionLostHandler | ConnectHandler

text \<open>\<open>paho.ClientOptions\<close>: the broker addresses that \<open>AddBroker\<close> kept, and for every other
  field the value that its setter was handed.\<close>

record ClientOptions =
  Servers :: "fmt list"
  ClientID :: string
  Username :: string
  Password :: string
  CleanSession :: bool
  Order :: bool
  KeepAlive :: Duration
  PingTimeout :: Duration
  AutoReconnect :: bool
  TLSConfig :: "tlsConfig option"
  OnConnectionLost :: "callback option"
  OnConnect :: "callback option"

text \<open>
  The environment of client construction: the logger instance, paho's default options
  (\<open>paho.NewClientOptions()\<close>), whether \<open>url.Parse\<close> accepts a broker address, the file
  system and the certificate parsers. Errors are \<open>Inl\<close>. \<open>CertsFromPEM\<close> gives the
  certificates that \<open>AppendCertsFromPEM\<close> finds in a PEM text (none when nothing parses).
\<close>

record Env =
  GetLoggerInstance :: "err option"
  NewClientOptions :: ClientOptions
  URLParses :: "fmt \<Rightarrow> bool"
  ReadFile :: "string \<Rightarrow> err + byte list"
  CertsFromPEM :: "byte list \<Rightarrow> byte list list"
  LoadX509KeyPair :: "string \<Rightarrow> string \<Rightarrow> err + tlsCertificate"
  ParseCertificate :: "byte list \<Rightarrow> err + byte list"

subsection \<open>The transport as the package sees it\<close>

text \<open>The function literal handed to \<open>Subscribe\<close>, identified by the variable \<open>topic\<close> it
  captures (it also reads the receiver \<open>m\<close> when it runs).\<close>

datatype MessageHandler = Callback Topic

text \<open>Calls on the paho client and on its tokens, in the order they are made.\<close>

datatype call =
    ClientConnect
  | ClientDisconnect nat
  | ClientSubscribe string byte MessageHandler
  | ClientPublish string byte bool string
  | TokenWait

record Client =
  options :: "ClientOptions option"
  calls :: "call list"

text \<open>A goroutine started for a message:
  \<open>go topic.Handler(m.api, m.prefix, msg.Topic(), msg.Payload())\<close>.\<close>

datatype goroutine = GoHandler nat "API option" string string "byte list"

text \<open>A \<open>time.Ticker\<close> made by \<open>retryConnect\<close>, with the goroutine that ranges over it.\<close>

record Ticker =
  period :: Duration
  running :: bool

subsection \<open>The struct MQTT and what lives beside it\<close>

record MQTT =
  host :: string
  port :: int
  prefix :: string
  clientID :: string
  sslEnabled :: bool
  username :: string
  password :: string
  caCertPath :: string
  clientCertPath :: string
  privateKeyPath :: string
  keepAliveSec :: int
  pingTimeoutSec :: int
  subscriptionQos :: byte
  persistent :: bool
  order :: bool
  connecting :: bool
  disconnected :: bool
  client :: Client
  verbose :: bool
  api :: "API option"
  connectToken :: "ConnectToken option"

text \<open>
  The struct together with the rest of the process that the methods act on: the tickers
  created so far (in creation order), the log lines written, the goroutines started for
  messages, and whether paho's own loggers were redirected.
\<close>

record World = MQTT +
  tickers :: "Ticker list"
  logged :: "logentry list"
  goroutines :: "goroutine list"
  pahoLoggers :: bool

definition invoke :: "call list \<Rightarrow> World \<Rightarrow> World" where
  "invoke cs w = w\<lparr>client := (client w)\<lparr>calls := calls (client w) @ cs\<rparr>\<rparr>"

definition logf :: "logentry \<Rightarrow> World \<Rightarrow> World" where
  "logf e w = w\<lparr>logged := logged w @ [e]\<rparr>"

subsection \<open>Construction\<close>

definition getProtocol :: "'a MQTT_scheme \<Rightarrow> string" where
  "getProtocol m = (if sslEnabled m = True then ''ssl'' else ''tcp'')"

text \<open>\<open>fmt.Errorf(f, err)\<close> for a format that ends in its only verb \<open>%s\<close>.\<close>

definition Errorf :: "string \<Rightarrow> err \<Rightarrow> err" where
  "Errorf f e = take (length f - 2) f @ e"

text \<open>The nil client of the struct literal, before \<open>mqttClient.client\<close> is assigned.\<close>

definition nilClient :: Client where
  "nilClient = \<lparr>options = None, calls = []\<rparr>"

text \<open>paho's \<open>AddBroker\<close> keeps an address only if \<open>url.Parse\<close> accepts it.\<close>

definition AddBroker :: "Env \<Rightarrow> fmt \<Rightarrow> ClientOptions \<Rightarrow> ClientOptions" where
  "AddBroker env server opts =
    (if URLParses env server then opts\<lparr>Servers := Servers opts @ [server]\<rparr> else opts)"

text \<open>
  \<open>initMQTTClientOptions\<close> returns \<open>(opts, nil)\<close> (here \<open>Inr opts\<close>) or \<open>(nil, err)\<close>
  (here \<open>Inl err\<close>); indexing \<open>cert.Certificate[0]\<close> panics on an empty chain.
\<close>

definition initMQTTClientOptions :: "Env \<Rightarrow> 'a MQTT_scheme \<Rightarrow> (err + ClientOptions) go" where
  "initMQTTClientOptions env m =
    (let opts = NewClientOptions env;
         opts = (if username m \<noteq> '''' then opts\<lparr>Username := username m\<rparr> else opts);
         opts = (if password m \<noteq> '''' then opts\<lparr>Password := password m\<rparr> else opts);
         tlsCfg = \<lparr>RootCAs = None, Certificates = []\<rparr>;
         tlsCfg =
           (if caCertPath m \<noteq> '''' then
              (case ReadFile env (caCertPath m) of
                 Inr pemCerts \<Rightarrow> tlsCfg\<lparr>RootCAs := Some ([] @ CertsFromPEM env pemCerts)\<rparr>
               | Inl e \<Rightarrow> tlsCfg\<lparr>RootCAs := Some []\<rparr>)
            else tlsCfg);
         finish = (\<lambda>tlsCfg.
           Returns (Inr ((AddBroker env
                (Sprintf ''%s://%s:%v'' [Str (getProtocol m), Str (host m), Num (port m)]) opts)
             \<lparr>TLSConfig := Some tlsCfg,
              ClientID := clientID m,
              CleanSession := \<not> persistent m,
              Order := order m,
              KeepAlive := DurationOf (keepAliveSec m) * Second,
              PingTimeout := DurationOf (pingTimeoutSec m) * Second,
              AutoReconnect := False,
              OnConnectionLost := Some ConnectionLostHandler,
              OnConnect := Some ConnectHandler\<rparr>)))
     in if clientCertPath m \<noteq> '''' \<and> privateKeyPath m \<noteq> '''' then
          (case LoadX509KeyPair env (clientCertPath m) (privateKeyPath m) of
             Inl e \<Rightarrow> Returns (Inl (Errorf ''error loading client keypair: %s'' e))
           | Inr cert \<Rightarrow>
               (case Certificate cert of
                  [] \<Rightarrow> Panics []
                | der # _ \<Rightarrow>
                    (case ParseCertificate env der of
                       Inl e \<Rightarrow> Returns (Inl (Errorf ''error parsing client certificate: %s'' e))
                     | Inr leaf \<Rightarrow>
                         finish (tlsCfg\<lparr>Certificates := [cert\<lparr>Leaf := Some leaf\<rparr>]\<rparr>))))
        else finish tlsCfg)"

text \<open>\<open>setupLogger\<close>: a failure to get the logger instance is logged; with \<open>verbose\<close>,
  paho's loggers are set to the package logger.\<close>

definition setupLogger :: "Env \<Rightarrow> bool \<Rightarrow> World \<Rightarrow> World" where
  "setupLogger env v w =
    (let w = (case GetLoggerInstance env of None \<Rightarrow> w | Some e \<Rightarrow> logf (LogError e) w)
     in if v then w\<lparr>pahoLoggers := True\<rparr> else w)"

text \<open>\<open>paho.NewClient(opts)\<close> copies the options that \<open>opts\<close> points to; a nil pointer
  panics.\<close>

definition NewClient :: "ClientOptions option \<Rightarrow> Client go" where
  "NewClient opts =
    (case opts of
       None \<Rightarrow> Panics []
     | Some o1 \<Rightarrow> Returns \<lparr>options = Some o1, calls = []\<rparr>)"

text \<open>The process before the client exists: nothing logged, no ticker, no goroutine.\<close>

definition structLiteral :: "MQTTConfig \<Rightarrow> World" where
  "structLiteral config =
    \<lparr>host = cfgHost config,
     port = cfgPort config,
     prefix = cfgPrefix config,
     clientID = cfgClientID config,
     sslEnabled = cfgSSL config,
     username = cfgUsername config,
     password = cfgPassword config,
     caCertPath = cfgCaCertFile config,
     clientCertPath = cfgClientCertFile config,
     privateKeyPath = cfgPrivateKeyFile config,
     keepAliveSec = cfgKeepAliveSec config,
     pingTimeoutSec = cfgPingTimeoutSec config,
     subscriptionQos = cfgSubscriptionQos config,
     persistent = cfgPersistent config,
     order = cfgOrder config,
     connecting = False,
     disconnected = False,
     client = nilClient,
     verbose = False,
     api = None,
     connectToken = None,
     tickers = [],
     logged = [],
     goroutines = [],
     pahoLoggers = False\<rparr>"

definition CreateMQTTClient :: "Env \<Rightarrow> MQTTConfig \<Rightarrow> World go" where
  "CreateMQTTClient env config =
    (let mqttClient = setupLogger env (cfgVerbose config) (structLiteral config)
     in case initMQTTClientOptions env mqttClient of
          Panics l \<Rightarrow> Panics (logged mqttClient)
        | Returns r \<Rightarrow>
            (let (opts, mqttClient) =
                   (case r of
                      Inl e \<Rightarrow> (None,
                        logf (LogErrorf ''unable to configure MQTT client: %s'' [Str e]) mqttClient)
                    | Inr o1 \<Rightarrow> (Some o1, mqttClient))
             in case NewClient opts of
                  Panics l \<Rightarrow> Panics (logged mqttClient)
                | Returns pahoClient \<Rightarrow> Returns (mqttClient\<lparr>client := pahoClient\<rparr>)))"

subsection \<open>The methods of the client\<close>

text \<open>
  \<open>retryConnect\<close> sets the flag and makes a new ticker of five seconds, with a goroutine
  that runs \<open>retryTick\<close> at every tick.
\<close>

definition retryConnect :: "World \<Rightarrow> World" where
  "retryConnect w =
    (let w = logf (LogInfof ''MQTT client starting reconnect procedure in background'' []) w;
         w = w\<lparr>connecting := True\<rparr>;
         ticker = \<lparr>period = Second * 5, running = True\<rparr>
     in w\<lparr>tickers := tickers w @ [ticker]\<rparr>)"

text \<open>\<open>connect\<close>; \<open>tok\<close> is the token that \<open>m.client.Connect()\<close> returns, as it is once
  \<open>Wait\<close> has returned.\<close>

definition connect :: "ConnectToken \<Rightarrow> World \<Rightarrow> World" where
  "connect tok w =
    (let w = (invoke [ClientConnect] w)\<lparr>connectToken := Some tok\<rparr>;
         w = invoke [TokenWait] w
     in case (Wait tok, Error tok) of
          (True, Some e) \<Rightarrow>
            (if \<not> connecting w
             then retryConnect (logf (LogErrorf ''MQTT client %s'' [Str e]) w)
             else w)
        | _ \<Rightarrow> w)"

text \<open>\<open>ticker.Stop()\<close> for the ticker made \<open>i\<close>-th.\<close>

definition stopTicker :: "nat \<Rightarrow> Ticker list \<Rightarrow> Ticker list" where
  "stopTicker i ts = (if i < length ts then ts[i := (ts ! i)\<lparr>running := False\<rparr>] else ts)"

text \<open>
  One round of the loop \<open>for range ticker.C\<close> in the goroutine of ticker \<open>i\<close>: \<open>tok\<close> is
  the result of the connect attempt, \<open>isConnected\<close> the answer of
  \<open>m.client.IsConnected()\<close> after it.
\<close>

definition retryTick :: "nat \<Rightarrow> ConnectToken \<Rightarrow> bool \<Rightarrow> World \<Rightarrow> World" where
  "retryTick i tok isConnected w =
    (let w = connect tok w
     in if isConnected
        then w\<lparr>tickers := stopTicker i (tickers w), connecting := False\<rparr>
        else w)"

text \<open>The body of the loop in \<open>subscribe\<close>; \<open>res k\<close> is the token of the \<open>k\<close>-th
  \<open>Subscribe\<close> call of this round.\<close>

fun subscribeLoop :: "(nat \<Rightarrow> Token) \<Rightarrow> nat \<Rightarrow> Topic list \<Rightarrow> World \<Rightarrow> World" where
  "subscribeLoop res k [] w = w"
| "subscribeLoop res k (t # ts) w =
    (let topic = t;
         w = logf (LogInfof ''MQTT client subscribing to %s'' [Str (Path topic)]) w;
         w = invoke [ClientSubscribe (Path topic) (subscriptionQos w) (Callback topic)] w;
         token = res k;
         w = invoke [TokenWait] w;
         w = (case (Wait token, Error token) of
                (True, Some e) \<Rightarrow> logf (LogError e) w
              | _ \<Rightarrow> w)
     in subscribeLoop res (Suc k) ts w)"

text \<open>\<open>subscribe\<close> dereferences \<open>m.api\<close> and the pointer that \<open>GetTopics\<close> returns.\<close>

definition subscribe :: "(nat \<Rightarrow> Token) \<Rightarrow> World \<Rightarrow> World go" where
  "subscribe res w =
    (case api w of
       None \<Rightarrow> Panics (logged w)
     | Some a \<Rightarrow>
         (case GetTopics a (prefix w) of
            None \<Rightarrow> Panics (logged w)
          | Some topics \<Rightarrow> Returns (subscribeLoop res 0 topics w)))"

text \<open>The function literal of \<open>subscribe\<close>, called by the transport with a message.\<close>

fun messageCallback :: "MessageHandler \<Rightarrow> Message \<Rightarrow> World \<Rightarrow> World" where
  "messageCallback (Callback topic) msg w =
    w\<lparr>goroutines := goroutines w @
      [GoHandler (Handler topic) (api w) (prefix w) (Topic msg) (Payload msg)]\<rparr>"

text \<open>\<open>connectHandler\<close> reads \<open>SessionPresent\<close> of the stored connect token (a nil token
  panics).\<close>

definition connectHandler :: "(nat \<Rightarrow> Token) \<Rightarrow> World \<Rightarrow> World go" where
  "connectHandler res w =
    (let w = logf (LogInfof ''MQTT client connected'' []) w
     in case connectToken w of
          None \<Rightarrow> Panics (logged w)
        | Some tok \<Rightarrow>
            (let hasSession = SessionPresent tok;
                 w = logf (LogInfof ''MQTT Session present: %v'' [Bool hasSession]) w
             in case (if \<not> disconnected w \<or> (disconnected w \<and> \<not> persistent w) \<or> \<not> hasSession
                      then subscribe res w else Returns w) of
                  Panics l \<Rightarrow> Panics l
                | Returns w \<Rightarrow> Returns (w\<lparr>disconnected := False\<rparr>)))"

definition connectionLostHandler :: "err \<Rightarrow> World \<Rightarrow> World" where
  "connectionLostHandler e w =
    (let w = logf (LogWarnf ''MQTT client lost connection: %v'' [Str e]) w;
         w = w\<lparr>disconnected := True\<rparr>
     in retryConnect w)"

definition Start :: "API \<Rightarrow> ConnectToken \<Rightarrow> World \<Rightarrow> World" where
  "Start a tok w =
    (let w = w\<lparr>api := Some a\<rparr>;
         w = logf (LogInfof
               ''Starting MQTT client on %s://%s:%v with Prefix:%v, Persistence:%v, OrderMatters:%v, KeepAlive:%v, PingTimeout:%v, QOS:%v''
               [Str (getProtocol w), Str (host w), Num (port w), Str (prefix w),
                Bool (persistent w), Bool (order w), Num (keepAliveSec w),
                Num (pingTimeoutSec w), Byte (subscriptionQos w)]) w
     in connect tok w)"

definition Stop :: "World \<Rightarrow> World" where
  "Stop w = invoke [ClientDisconnect 500] w"

text \<open>\<open>Publish\<close>; \<open>token\<close> is what \<open>m.client.Publish\<close> returns. The method has no result.\<close>

definition Publish :: "Token \<Rightarrow> string \<Rightarrow> string \<Rightarrow> byte \<Rightarrow> World \<Rightarrow> World" where
  "Publish token topic message qos w =
    (let w = invoke [ClientPublish topic qos False message] w
     in invoke [TokenWait] w)"

subsection \<open>Runs of the client\<close>

text \<open>
  What can happen to a constructed client: a call of an exported method, a callback of
  the transport, or a tick of one of the tickers. A ticker that is stopped, or was never
  made, sends no tick.
\<close>

datatype event =
    EvStart API ConnectToken
  | EvStop
  | EvPublish Token string string byte
  | EvConnected "nat \<Rightarrow> Token"
  | EvConnectionLost err
  | EvTick nat ConnectToken bool
  | EvMessage MessageHandler Message

fun step :: "event \<Rightarrow> World \<Rightarrow> World go" where
  "step (EvStart a tok) w = Returns (Start a tok w)"
| "step EvStop w = Returns (Stop w)"
| "step (EvPublish token topic message qos) w = Returns (Publish token topic message qos w)"
| "step (EvConnected res) w = connectHandler res w"
| "step (EvConnectionLost e) w = Returns (connectionLostHandler e w)"
| "step (EvTick i tok isConnected) w =
    (if i < length (tickers w) \<and> running (tickers w ! i)
     then Returns (retryTick i tok isConnected w) else Returns w)"
| "step (EvMessage h msg) w = Returns (messageCallback h msg w)"

fun run :: "event list \<Rightarrow> World \<Rightarrow> World go" where
  "run [] w = Returns w"
| "run (e # es) w = (case step e w of Panics l \<Rightarrow> Panics l | Returns w' \<Rightarrow> run es w')"

text \<open>The number of retry cycles that are active: the tickers that were not stopped.\<close>

definition activeCycles :: "World \<Rightarrow> nat" where
  "activeCycles w = length (filter running (tickers w))"

subsection \<open>Observations on a state\<close>

text \<open>
  What one round of \<open>subscribe\<close> asks of the transport for a topic list, and what it logs:
  for every topic, in the order of the list, a \<open>Subscribe\<close> with the function literal for
  that topic and a \<open>Wait\<close> on its token; a line before each call and the error of a token
  that failed.
\<close>

definition subscribeCalls :: "byte \<Rightarrow> Topic list \<Rightarrow> call list" where
  "subscribeCalls q ts = concat (map (\<lambda>t. [ClientSubscribe (Path t) q (Callback t), TokenWait]) ts)"

definition subscribeLines :: "Token \<Rightarrow> Topic \<Rightarrow> logentry list" where
  "subscribeLines token t =
    LogInfof ''MQTT client subscribing to %s'' [Str (Path t)] #
    (case (Wait token, Error token) of (True, Some e) \<Rightarrow> [LogError e] | _ \<Rightarrow> [])"

fun subscribeLog :: "(nat \<Rightarrow> Token) \<Rightarrow> nat \<Rightarrow> Topic list \<Rightarrow> logentry list" where
  "subscribeLog res k [] = []"
| "subscribeLog res k (t # ts) = subscribeLines (res k) t @ subscribeLog res (Suc k) ts"

text \<open>The subscriptions the transport was asked for: path and message handler.\<close>

fun subscription :: "call \<Rightarrow> (string \<times> MessageHandler) list" where
  "subscription (ClientSubscribe p q h) = [(p, h)]"
| "subscription _ = []"

definition registered :: "World \<Rightarrow> (string \<times> MessageHandler) list" where
  "registered w = concat (map subscription (calls (client w)))"

text \<open>A client is constructed and then meets the events (as \<open>main\<close> constructs it and
  calls \<open>Start\<close>).\<close>

definition session :: "Env \<Rightarrow> MQTTConfig \<Rightarrow> event list \<Rightarrow> World go" where
  "session env config evs =
    (case CreateMQTTClient env config of Panics l \<Rightarrow> Panics l | Returns w \<Rightarrow> run evs w)"

text \<open>The calls made on the transport so far.\<close>

definition transportCalls :: "World \<Rightarrow> call list" where
  "transportCalls w = calls (client w)"


text \<open>The retain flag of a transport call (only a publish has one).\<close>

fun retained :: "call \<Rightarrow> bool" where
  "retained (ClientPublish topic qos r payload) = r"
| "retained _ = False"

text \<open>
  The error of a configured client key pair, in the claim's words: both paths are set and
  loading the pair fails, or parsing its first certificate fails.
\<close>

definition keypairError :: "Env \<Rightarrow> MQTTConfig \<Rightarrow> err option" where
  "keypairError env config =
    (if cfgClientCertFile config \<noteq> '''' \<and> cfgPrivateKeyFile config \<noteq> '''' then
       (case LoadX509KeyPair env (cfgClientCertFile config) (cfgPrivateKeyFile config) of
          Inl e \<Rightarrow> Some (''error loading client keypair: '' @ e)
        | Inr cert \<Rightarrow>
            (case Certificate cert of
               [] \<Rightarrow> None
             | der # _ \<Rightarrow>
                 (case ParseCertificate env der of
                    Inl e \<Rightarrow> Some (''error parsing client certificate: '' @ e)
                  | Inr _ \<Rightarrow> None)))
     else None)"

text \<open>
  The configured trust anchor fails, in the claim's words: a path is set and the file
  cannot be loaded, or it is loaded and no certificate parses from it.
\<close>

definition trustAnchorFails :: "Env \<Rightarrow> MQTTConfig \<Rightarrow> bool" where
  "trustAnchorFails env config =
    (cfgCaCertFile config \<noteq> '''' \<and>
     (case ReadFile env (cfgCaCertFile config) of
        Inl e \<Rightarrow> True
      | Inr pem \<Rightarrow> CertsFromPEM env pem = []))"

text \<open>The error that \<open>initMQTTClientOptions\<close> returns, if it returns one.\<close>

definition failureOf :: "(err + ClientOptions) go \<Rightarrow> err option go" where
  "failureOf r = map_go (\<lambda>x. case x of Inl e \<Rightarrow> Some e | Inr _ \<Rightarrow> None) r"

text \<open>The root pool of the TLS configuration a client was built with.\<close>

definition rootCAs :: "World \<Rightarrow> byte list list option" where
  "rootCAs w =
    (case options (client w) of
       None \<Rightarrow> None
     | Some opts \<Rightarrow> (case TLSConfig opts of None \<Rightarrow> None | Some t \<Rightarrow> RootCAs t))"

subsection \<open>Concrete inputs\<close>

text \<open>
  A server API with two topics, tokens of the transport, paho's default options, a file
  system that holds \<open>ca.pem\<close>, \<open>garbage.pem\<close> (readable, no certificate in it),
  \<open>client.crt\<close> and \<open>client.key\<close> and nothing else, and a configuration without TLS.
\<close>

definition exampleTopics :: "Topic list" where
  "exampleTopics =
    [\<lparr>Path = ''GOST/Datastreams(1)/Observations'', Handler = 1\<rparr>,
     \<lparr>Path = ''GOST/#'', Handler = 2\<rparr>]"

definition exampleAPI :: API where
  "exampleAPI = \<lparr>GetTopics = (\<lambda>p. Some exampleTopics)\<rparr>"

definition okToken :: Token where
  "okToken = \<lparr>Wait = True, Error = None\<rparr>"

definition failedToken :: Token where
  "failedToken = \<lparr>Wait = True, Error = Some ''not connected''\<rparr>"

definition acceptedToken :: "bool \<Rightarrow> ConnectToken" where
  "acceptedToken present = \<lparr>Wait = True, Error = None, SessionPresent = present\<rparr>"

definition refusedToken :: ConnectToken where
  "refusedToken = \<lparr>Wait = True, Error = Some ''connection refused'', SessionPresent = False\<rparr>"

definition firstFails :: "nat \<Rightarrow> Token" where
  "firstFails k = (if k = 0 then failedToken else okToken)"

definition exampleDefaults :: ClientOptions where
  "exampleDefaults =
    \<lparr>Servers = [], ClientID = '''', Username = '''', Password = '''', CleanSession = True,
     Order = True, KeepAlive = 30 * Second, PingTimeout = 10 * Second, AutoReconnect = True,
     TLSConfig = None, OnConnectionLost = None, OnConnect = None\<rparr>"

definition exampleEnv :: Env where
  "exampleEnv =
    \<lparr>GetLoggerInstance = None,
     NewClientOptions = exampleDefaults,
     URLParses = (\<lambda>server. True),
     ReadFile = (\<lambda>p. if p = ''ca.pem'' then Inr [1, 2, 3]
        else if p = ''garbage.pem'' then Inr [0] else Inl ''no such file''),
     CertsFromPEM = (\<lambda>pem. if pem = [1, 2, 3] then [pem] else []),
     LoadX509KeyPair = (\<lambda>c k. if c = ''client.crt'' \<and> k = ''client.key''
        then Inr \<lparr>Certificate = [[4, 5]], Leaf = None\<rparr> else Inl ''no such file''),
     ParseCertificate = (\<lambda>der. Inr der)\<rparr>"

definition exampleConfig :: MQTTConfig where
  "exampleConfig =
    \<lparr>cfgVerbose = False, cfgHost = ''localhost'', cfgPort = 1883, cfgPrefix = ''GOST'',
     cfgClientID = ''gost'', cfgSubscriptionQos = 1, cfgPersistent = True, cfgOrder = False,
     cfgSSL = False, cfgUsername = '''', cfgPassword = '''', cfgCaCertFile = '''',
     cfgClientCertFile = '''', cfgPrivateKeyFile = '''', cfgKeepAliveSec = 300,
     cfgPingTimeoutSec = 20\<rparr>"

definition exampleWorld :: World where
  "exampleWorld = (structLiteral exampleConfig)
     \<lparr>client := \<lparr>options = Some exampleDefaults, calls = []\<rparr>,
      api := Some exampleAPI,
      connectToken := Some (acceptedToken True),
      disconnected := True\<rparr>"

definition exampleMessage :: Message where
  "exampleMessage = \<lparr>Topic = ''GOST/Datastreams(1)/Observations'', Payload = [123, 125]\<rparr>"

text \<open>Configurations that name a key pair that the file system does not hold, a trust
  anchor that it does not hold, and a trust anchor without a certificate.\<close>

definition badKeyConfig :: MQTTConfig where
  "badKeyConfig = exampleConfig
     \<lparr>cfgSSL := True, cfgClientCertFile := ''missing.crt'', cfgPrivateKeyFile := ''missing.key''\<rparr>"

definition badCAConfig :: MQTTConfig where
  "badCAConfig = exampleConfig\<lparr>cfgSSL := True, cfgCaCertFile := ''missing.pem''\<rparr>"

definition garbageCAConfig :: MQTTConfig where
  "garbageCAConfig = exampleConfig\<lparr>cfgSSL := True, cfgCaCertFile := ''garbage.pem''\<rparr>"

section \<open>Properties\<close>

subsection \<open>Subscription restoration\<close>

lemma subscribeLoop_state:
  "subscribeLoop res k ts w =
     w\<lparr>client := (client w)\<lparr>calls := calls (client w) @ subscribeCalls (subscriptionQos w) ts\<rparr>,
       logged := logged w @ subscribeLog res k ts\<rparr>"
proof (induction ts arbitrary: k w)
  case Nil
  show ?case by (simp add: subscribeCalls_def)
next
  case (Cons t ts)
  show ?case
    by (simp add: Cons.IH Let_def logf_def invoke_def subscribeCalls_def subscribeLines_def
        split: bool.splits option.splits)
qed

lemma subscribeLog_failure:
  "i < length ts \<Longrightarrow> Wait (res (k + i)) \<Longrightarrow> Error (res (k + i)) = Some e \<Longrightarrow>
     LogError e \<in> set (subscribeLog res k ts)"
proof (induction ts arbitrary: k i)
  case Nil
  then show ?case by simp
next
  case (Cons t ts)
  show ?case
  proof (cases i)
    case 0
    with Cons.prems show ?thesis by (simp add: subscribeLines_def)
  next
    case (Suc j)
    with Cons.prems have "LogError e \<in> set (subscribeLog res (Suc k) ts)"
      using Cons.IH [of j "Suc k"] by simp
    then show ?thesis by simp
  qed
qed

lemma subscribe_state:
  assumes "api w = Some a" and "GetTopics a (prefix w) = Some topics"
  shows "subscribe res w = Returns
     (w\<lparr>client := (client w)\<lparr>calls := calls (client w) @ subscribeCalls (subscriptionQos w) topics\<rparr>,
        logged := logged w @ subscribeLog res 0 topics\<rparr>)"
  using assms by (simp add: subscribe_def subscribeLoop_state)

lemma subscribeCalls_no_connect: "ClientConnect \<notin> set (subscribeCalls q ts)"
  by (induction ts) (simp_all add: subscribeCalls_def)

text \<open>
  Claim C7. \<open>subscribe\<close> goes through the topic list in its order and issues one
  \<open>Subscribe\<close> call per topic, whatever the tokens of the earlier calls report: the
  calls made are exactly \<open>subscribeCalls\<close> of the whole list, the error of every failed
  token is logged, and no failure starts a reconnect (no ticker is made, the flag
  \<open>connecting\<close> is unchanged, no \<open>Connect\<close> is called).
\<close>

theorem subscribe_attempts_every_topic:
  assumes "api w = Some a" and "GetTopics a (prefix w) = Some topics"
  shows "\<exists>w'. subscribe res w = Returns w' \<and>
    calls (client w') = calls (client w) @ subscribeCalls (subscriptionQos w) topics \<and>
    logged w' = logged w @ subscribeLog res 0 topics \<and>
    (\<forall>k e. k < length topics \<and> Wait (res k) \<and> Error (res k) = Some e \<longrightarrow>
       LogError e \<in> set (logged w')) \<and>
    tickers w' = tickers w \<and> connecting w' = connecting w \<and>
    ClientConnect \<notin> set (subscribeCalls (subscriptionQos w) topics)"
proof -
  let ?w' = "w\<lparr>client := (client w)\<lparr>calls := calls (client w) @ subscribeCalls (subscriptionQos w) topics\<rparr>,
        logged := logged w @ subscribeLog res 0 topics\<rparr>"
  have r: "subscribe res w = Returns ?w'"
    using assms by (rule subscribe_state)
  have l: "\<forall>k e. k < length topics \<and> Wait (res k) \<and> Error (res k) = Some e \<longrightarrow>
       LogError e \<in> set (logged ?w')"
    using subscribeLog_failure [of _ topics res 0] by auto
  show ?thesis
    using r l subscribeCalls_no_connect by (intro exI [of _ ?w']) simp
qed

theorem subscribe_attempts_every_topic_witness:
  "\<exists>w'. subscribe firstFails exampleWorld = Returns w' \<and>
     calls (client w') =
       [ClientSubscribe ''GOST/Datastreams(1)/Observations'' 1 (Callback (exampleTopics ! 0)),
        TokenWait,
        ClientSubscribe ''GOST/#'' 1 (Callback (exampleTopics ! 1)), TokenWait] \<and>
     LogError ''not connected'' \<in> set (logged w') \<and> tickers w' = [] \<and> \<not> connecting w'"
proof -
  have a: "api exampleWorld = Some exampleAPI"
    by (simp add: exampleWorld_def)
  have t: "GetTopics exampleAPI (prefix exampleWorld) = Some exampleTopics"
    by (simp add: exampleAPI_def)
  obtain w' where w': "subscribe firstFails exampleWorld = Returns w'"
    "calls (client w') = calls (client exampleWorld) @ subscribeCalls (subscriptionQos exampleWorld) exampleTopics"
    "\<forall>k e. k < length exampleTopics \<and> Wait (firstFails k) \<and> Error (firstFails k) = Some e \<longrightarrow>
       LogError e \<in> set (logged w')"
    "tickers w' = tickers exampleWorld" "connecting w' = connecting exampleWorld"
    using subscribe_attempts_every_topic [OF a t, of firstFails] by blast
  have "LogError ''not connected'' \<in> set (logged w')"
    using w'(3) [THEN spec, of 0, THEN spec, of "''not connected''"]
    by (simp add: firstFails_def failedToken_def exampleTopics_def)
  moreover have "calls (client w') =
       [ClientSubscribe ''GOST/Datastreams(1)/Observations'' 1 (Callback (exampleTopics ! 0)),
        TokenWait,
        ClientSubscribe ''GOST/#'' 1 (Callback (exampleTopics ! 1)), TokenWait]"
    using w'(2)
    by (simp add: exampleWorld_def structLiteral_def exampleConfig_def subscribeCalls_def
        exampleTopics_def)
  moreover have "tickers w' = []" "\<not> connecting w'"
    using w'(4,5) by (simp_all add: exampleWorld_def structLiteral_def)
  ultimately show ?thesis
    using w'(1) by blast
qed
















subsection \<open>Dispatch of inbound messages\<close>

lemma registered_append:
  "registered (w\<lparr>client := (client w)\<lparr>calls := calls (client w) @ cs\<rparr>, logged := l\<rparr>) =
     registered w @ concat (map subscription cs)"
  by (simp add: registered_def)

lemma subscriptions_of_subscribeCalls:
  "concat (map subscription (subscribeCalls q ts)) = map (\<lambda>t. (Path t, Callback t)) ts"
  by (induction ts) (simp_all add: subscribeCalls_def)

text \<open>
  Claim C8. Every subscription that \<open>subscribe\<close> registers binds the path of a topic to
  the function literal for that same topic, and that function, called with a message,
  does one thing: it starts a goroutine running the topic's handler with \<open>m.api\<close>,
  \<open>m.prefix\<close>, the topic string of the message and its payload, unchanged.
\<close>

theorem dispatch_passes_message_to_handler:
  assumes "api w = Some a" and "GetTopics a (prefix w) = Some topics"
  shows "\<exists>w'. subscribe res w = Returns w' \<and>
    registered w' = registered w @ map (\<lambda>t. (Path t, Callback t)) topics \<and>
    (\<forall>t msg v. t \<in> set topics \<longrightarrow>
       messageCallback (Callback t) msg v =
         v\<lparr>goroutines := goroutines v @
           [GoHandler (Handler t) (api v) (prefix v) (Topic msg) (Payload msg)]\<rparr>)"
  using subscribe_state [OF assms, of res]
  by (simp add: registered_append subscriptions_of_subscribeCalls)

theorem dispatch_passes_message_to_handler_witness:
  "\<exists>w'. subscribe firstFails exampleWorld = Returns w' \<and>
     registered w' =
       [(''GOST/Datastreams(1)/Observations'', Callback (exampleTopics ! 0)),
        (''GOST/#'', Callback (exampleTopics ! 1))] \<and>
     goroutines (messageCallback (Callback (exampleTopics ! 0)) exampleMessage exampleWorld) =
       [GoHandler 1 (Some exampleAPI) ''GOST'' ''GOST/Datastreams(1)/Observations'' [123, 125]]"
proof -
  have a: "api exampleWorld = Some exampleAPI"
    by (simp add: exampleWorld_def)
  have t: "GetTopics exampleAPI (prefix exampleWorld) = Some exampleTopics"
    by (simp add: exampleAPI_def)
  obtain w' where w': "subscribe firstFails exampleWorld = Returns w'"
    "registered w' = registered exampleWorld @ map (\<lambda>t. (Path t, Callback t)) exampleTopics"
    "\<forall>t msg v. t \<in> set exampleTopics \<longrightarrow>
       messageCallback (Callback t) msg v =
         v\<lparr>goroutines := goroutines v @
           [GoHandler (Handler t) (api v) (prefix v) (Topic msg) (Payload msg)]\<rparr>"
    using dispatch_passes_message_to_handler [OF a t, of firstFails] by blast
  have "registered w' =
       [(''GOST/Datastreams(1)/Observations'', Callback (exampleTopics ! 0)),
        (''GOST/#'', Callback (exampleTopics ! 1))]"
    using w'(2) by (simp add: registered_def exampleWorld_def exampleTopics_def)
  moreover have "exampleTopics ! 0 \<in> set exampleTopics"
    by (simp add: exampleTopics_def)
  then have "goroutines (messageCallback (Callback (exampleTopics ! 0)) exampleMessage exampleWorld) =
       [GoHandler 1 (Some exampleAPI) ''GOST'' ''GOST/Datastreams(1)/Observations'' [123, 125]]"
    using w'(3) [THEN spec, of "exampleTopics ! 0", THEN spec, of exampleMessage, THEN spec, of exampleWorld]
    by (simp add: exampleWorld_def structLiteral_def exampleConfig_def exampleTopics_def
        exampleMessage_def)
  ultimately show ?thesis
    using w'(1) by blast
qed

subsection \<open>Publishing\<close>

text \<open>
  Claim C10. Whatever the topic, the message and the QoS, \<open>Publish\<close> hands the transport
  one publish call whose retain flag is false (followed by the wait on its token): it
  adds no retained publish to the calls made.
\<close>

theorem publish_never_retains:
  "calls (client (Publish token topic message qos w)) =
     calls (client w) @ [ClientPublish topic qos False message, TokenWait] \<and>
   filter retained (calls (client (Publish token topic message qos w))) =
     filter retained (calls (client w))"
  by (simp add: Publish_def invoke_def)

text \<open>
  Claim C5, as the code has it. \<open>Publish\<close> forwards one publish call and waits on its
  token, and has no result: the state it leaves is the same for every token, so the
  caller cannot tell a failed publish from an acknowledged one. Nothing is retried:
  no ticker is made, the flag \<open>connecting\<close> is unchanged, nothing is logged, and no other
  transport call is made.
\<close>

theorem publish_result_discarded:
  "Publish token topic message qos w = Publish token' topic message qos w \<and>
   calls (client (Publish token topic message qos w)) =
     calls (client w) @ [ClientPublish topic qos False message, TokenWait] \<and>
   tickers (Publish token topic message qos w) = tickers w \<and>
   connecting (Publish token topic message qos w) = connecting w \<and>
   logged (Publish token topic message qos w) = logged w"
  by (simp add: Publish_def invoke_def)

text \<open>Claim C5 as stated fails: a publish whose token carries an error leaves exactly the
  state of a publish that succeeded.\<close>

theorem publish_failure_not_surfaced:
  "Publish failedToken ''GOST/Things'' ''{}'' 1 exampleWorld =
   Publish okToken ''GOST/Things'' ''{}'' 1 exampleWorld"
  by (simp add: Publish_def)

subsection \<open>Stop and the retry cycle\<close>

text \<open>
  Claim C3, as the code has it. \<open>Stop\<close> asks the transport to disconnect with a quiesce
  time of 500 ms and does nothing else: the state it leaves is the state before with that
  one call added. So the tickers and the flag \<open>connecting\<close> are as before, and the next
  tick of a ticker that was running still makes a connect attempt.
\<close>

theorem stop_only_disconnects:
  "Stop w = w\<lparr>client := (client w)\<lparr>calls := calls (client w) @ [ClientDisconnect 500]\<rparr>\<rparr> \<and>
   tickers (Stop w) = tickers w \<and> connecting (Stop w) = connecting w \<and>
   calls (client (Stop w)) = calls (client w) @ [ClientDisconnect 500] \<and>
   (i < length (tickers w) \<and> running (tickers w ! i) \<longrightarrow>
      (\<exists>w'. step (EvTick i tok isConnected) (Stop w) = Returns w' \<and>
         calls (client w') =
           calls (client w) @ [ClientDisconnect 500, ClientConnect, TokenWait]))"
  by (simp add: Stop_def invoke_def retryTick_def connect_def retryConnect_def logf_def Let_def
      split: bool.splits option.splits)

theorem stop_only_disconnects_witness:
  "Stop (retryConnect exampleWorld) =
     (retryConnect exampleWorld)\<lparr>client := \<lparr>options = Some exampleDefaults,
        calls = [ClientDisconnect 500]\<rparr>\<rparr> \<and>
   tickers (Stop (retryConnect exampleWorld)) = [\<lparr>period = 5000000000, running = True\<rparr>] \<and>
   connecting (Stop (retryConnect exampleWorld)) \<and>
   (\<exists>w'. step (EvTick 0 refusedToken False) (Stop (retryConnect exampleWorld)) = Returns w' \<and>
      calls (client w') = [ClientDisconnect 500, ClientConnect, TokenWait])"
proof -
  have r: "tickers (retryConnect exampleWorld) = [\<lparr>period = 5000000000, running = True\<rparr>]"
    "connecting (retryConnect exampleWorld)" "calls (client (retryConnect exampleWorld)) = []"
    "client (retryConnect exampleWorld) = \<lparr>options = Some exampleDefaults, calls = []\<rparr>"
    by (simp_all add: retryConnect_def logf_def Let_def exampleWorld_def structLiteral_def
        Second_def)
  have h: "0 < length (tickers (retryConnect exampleWorld)) \<and>
      running (tickers (retryConnect exampleWorld) ! 0)"
    using r by simp
  note s = stop_only_disconnects [of "retryConnect exampleWorld" 0 refusedToken False]
  have "Stop (retryConnect exampleWorld) =
      (retryConnect exampleWorld)\<lparr>client := (client (retryConnect exampleWorld))
        \<lparr>calls := calls (client (retryConnect exampleWorld)) @ [ClientDisconnect 500]\<rparr>\<rparr>"
    using s by blast
  then have 1: "Stop (retryConnect exampleWorld) =
     (retryConnect exampleWorld)\<lparr>client := \<lparr>options = Some exampleDefaults,
        calls = [ClientDisconnect 500]\<rparr>\<rparr>"
    using r(4) by simp
  have "tickers (Stop (retryConnect exampleWorld)) = tickers (retryConnect exampleWorld)"
    and "connecting (Stop (retryConnect exampleWorld)) = connecting (retryConnect exampleWorld)"
    using s by blast+
  then have 2: "tickers (Stop (retryConnect exampleWorld)) =
      [\<lparr>period = 5000000000, running = True\<rparr>]"
    "connecting (Stop (retryConnect exampleWorld))"
    using r(1,2) by simp_all
  have "\<exists>w'. step (EvTick 0 refusedToken False) (Stop (retryConnect exampleWorld)) = Returns w' \<and>
      calls (client w') =
        calls (client (retryConnect exampleWorld)) @
          [ClientDisconnect 500, ClientConnect, TokenWait]"
    using s h by blast
  then have 3: "\<exists>w'. step (EvTick 0 refusedToken False) (Stop (retryConnect exampleWorld)) =
        Returns w' \<and>
      calls (client w') = [ClientDisconnect 500, ClientConnect, TokenWait]"
    using r(3) by (simp del: step.simps)
  show ?thesis
    using 1 2 3 by blast
qed

text \<open>
  Claim C3 as stated fails: after a failed first connect and \<open>Stop\<close>, the retry cycle is
  still active and the flag still set, and the next tick calls \<open>Connect\<close> after the
  \<open>Disconnect\<close>.
\<close>

theorem stop_leaves_retry_running:
  "map_go activeCycles
     (session exampleEnv exampleConfig [EvStart exampleAPI refusedToken, EvStop]) =
     Returns 1 \<and>
   map_go connecting
     (session exampleEnv exampleConfig [EvStart exampleAPI refusedToken, EvStop]) =
     Returns True \<and>
   map_go transportCalls
     (session exampleEnv exampleConfig
        [EvStart exampleAPI refusedToken, EvStop, EvTick 0 (acceptedToken False) True]) =
     Returns [ClientConnect, TokenWait, ClientDisconnect 500, ClientConnect, TokenWait]"
  by (simp add: session_def CreateMQTTClient_def initMQTTClientOptions_def setupLogger_def
      structLiteral_def exampleEnv_def exampleConfig_def NewClient_def AddBroker_def Let_def
      Start_def Stop_def connect_def retryConnect_def retryTick_def stopTicker_def
      invoke_def logf_def refusedToken_def acceptedToken_def activeCycles_def
      transportCalls_def)

text \<open>
  Claim C1 on a run of the code. The client connects and then loses the connection: one
  cycle is active. The tick of that cycle reconnects, but the connection is lost again
  before \<open>IsConnected\<close> is asked, so the ticker is not stopped; the connection-lost
  callback for that loss makes a second ticker: two cycles are active.
\<close>

theorem second_cycle_armed_while_first_active:
  "map_go activeCycles
     (session exampleEnv exampleConfig
        [EvStart exampleAPI (acceptedToken False), EvConnected firstFails,
         EvConnectionLost ''EOF'']) = Returns 1 \<and>
   map_go activeCycles
     (session exampleEnv exampleConfig
        [EvStart exampleAPI (acceptedToken False), EvConnected firstFails,
         EvConnectionLost ''EOF'', EvTick 0 (acceptedToken False) False,
         EvConnected firstFails, EvConnectionLost ''EOF'']) = Returns 2"
  by (simp add: session_def CreateMQTTClient_def initMQTTClientOptions_def setupLogger_def
      structLiteral_def exampleEnv_def exampleConfig_def NewClient_def AddBroker_def Let_def
      Start_def connect_def retryConnect_def retryTick_def stopTicker_def
      connectHandler_def connectionLostHandler_def subscribe_def exampleAPI_def
      exampleTopics_def firstFails_def failedToken_def okToken_def
      invoke_def logf_def acceptedToken_def activeCycles_def)

text \<open>The two ways into the retry cycle, and the guard on one of them: a connection loss
  always makes a ticker; a failed connect makes one only while the flag \<open>connecting\<close> is
  clear.\<close>

lemma connectionLostHandler_arms:
  "activeCycles (connectionLostHandler e v) = Suc (activeCycles v) \<and>
   disconnected (connectionLostHandler e v) \<and> connecting (connectionLostHandler e v)"
  by (simp add: connectionLostHandler_def retryConnect_def logf_def Let_def activeCycles_def)

lemma connect_failure_arms:
  "Wait tok \<Longrightarrow> Error tok = Some e \<Longrightarrow> \<not> connecting v \<Longrightarrow>
     activeCycles (connect tok v) = Suc (activeCycles v) \<and> connecting (connect tok v)"
  by (simp add: connect_def retryConnect_def logf_def invoke_def Let_def activeCycles_def)

lemma connect_guarded:
  "connecting v \<Longrightarrow> tickers (connect tok v) = tickers v \<and> connecting (connect tok v)"
  by (simp add: connect_def retryConnect_def logf_def invoke_def Let_def
      split: bool.splits option.splits)

lemma connect_calls:
  "calls (client (connect tok v)) = calls (client v) @ [ClientConnect, TokenWait]"
  by (simp add: connect_def retryConnect_def logf_def invoke_def Let_def
      split: bool.splits option.splits)

lemma retryTick_calls:
  "calls (client (retryTick i tok c v)) = calls (client v) @ [ClientConnect, TokenWait]"
  by (simp add: retryTick_def Let_def connect_calls)

subsection \<open>Construction\<close>

lemma init_options:
  assumes "initMQTTClientOptions env m = Returns (Inr opts)"
  shows "\<not> AutoReconnect opts \<and> OnConnectionLost opts = Some ConnectionLostHandler \<and>
    OnConnect opts = Some ConnectHandler \<and> CleanSession opts = (\<not> persistent m)"
  using assms
  by (auto simp add: initMQTTClientOptions_def AddBroker_def Let_def
      split: if_splits sum.splits list.splits)

lemma created_options:
  assumes "CreateMQTTClient env config = Returns w"
  shows "\<exists>opts. options (client w) = Some opts \<and>
    initMQTTClientOptions env (setupLogger env (cfgVerbose config) (structLiteral config))
      = Returns (Inr opts)"
  using assms
  by (auto simp add: CreateMQTTClient_def NewClient_def Let_def
      split: go.splits sum.splits if_splits)

lemma created_from_options:
  assumes "initMQTTClientOptions env (setupLogger env (cfgVerbose config) (structLiteral config))
      = Returns (Inr opts)"
  shows "CreateMQTTClient env config =
    Returns ((setupLogger env (cfgVerbose config) (structLiteral config))
      \<lparr>client := \<lparr>options = Some opts, calls = []\<rparr>\<rparr>)"
  by (simp add: assms CreateMQTTClient_def NewClient_def Let_def)

lemma created_no_tickers:
  assumes "CreateMQTTClient env config = Returns w"
  shows "tickers w = [] \<and> \<not> connecting w \<and> \<not> disconnected w \<and> calls (client w) = []"
  using assms
  by (auto simp add: CreateMQTTClient_def NewClient_def Let_def setupLogger_def logf_def
      structLiteral_def split: go.splits sum.splits if_splits option.splits)

text \<open>
  Claim C9. Every client that \<open>CreateMQTTClient\<close> returns was built from options in which
  paho's automatic reconnect is switched off (whatever paho's default is) and the two
  handlers of the package are registered. The client starts without a ticker.
  Reconnection is then the package's own: the connection-lost handler makes a retry
  ticker, a failed connect makes one when none is flagged, and every tick of a ticker
  calls \<open>Connect\<close> again.
\<close>

theorem created_client_reconnects_by_retry_loop_only:
  assumes "CreateMQTTClient env config = Returns w"
  shows "(\<exists>opts. options (client w) = Some opts \<and>
        \<not> AutoReconnect opts \<and>
        OnConnectionLost opts = Some ConnectionLostHandler \<and>
        OnConnect opts = Some ConnectHandler) \<and>
    tickers w = [] \<and>
    activeCycles (connectionLostHandler e v) = Suc (activeCycles v) \<and>
    (Wait tok \<and> Error tok = Some e \<and> \<not> connecting v \<longrightarrow>
       activeCycles (connect tok v) = Suc (activeCycles v)) \<and>
    calls (client (retryTick i tok isConnected v)) = calls (client v) @ [ClientConnect, TokenWait]"
proof -
  obtain opts where opts: "options (client w) = Some opts"
    "initMQTTClientOptions env (setupLogger env (cfgVerbose config) (structLiteral config))
      = Returns (Inr opts)"
    using created_options [OF assms] by blast
  have o: "\<exists>opts. options (client w) = Some opts \<and>
        \<not> AutoReconnect opts \<and>
        OnConnectionLost opts = Some ConnectionLostHandler \<and>
        OnConnect opts = Some ConnectHandler"
    using opts(1) init_options [OF opts(2)] by simp
  show ?thesis
    using o created_no_tickers [OF assms]
      connectionLostHandler_arms [of e v] connect_failure_arms [of tok e v]
      retryTick_calls [of i tok isConnected v]
    by simp
qed

theorem created_client_reconnects_by_retry_loop_only_witness:
  "\<exists>w opts. CreateMQTTClient exampleEnv exampleConfig = Returns w \<and>
     options (client w) = Some opts \<and> \<not> AutoReconnect opts \<and>
     AutoReconnect (NewClientOptions exampleEnv) \<and>
     OnConnectionLost opts = Some ConnectionLostHandler \<and>
     activeCycles (connectionLostHandler ''EOF'' w) = 1 \<and>
     activeCycles (connect refusedToken w) = 1"
proof -
  have "\<exists>w. CreateMQTTClient exampleEnv exampleConfig = Returns w"
    by (simp add: CreateMQTTClient_def initMQTTClientOptions_def setupLogger_def
        structLiteral_def exampleEnv_def exampleConfig_def NewClient_def AddBroker_def Let_def)
  then obtain w where w: "CreateMQTTClient exampleEnv exampleConfig = Returns w"
    by blast
  have d: "AutoReconnect (NewClientOptions exampleEnv)"
    by (simp add: exampleEnv_def exampleDefaults_def)
  have t: "tickers w = []" "\<not> connecting w"
    using created_no_tickers [OF w] by simp_all
  have f: "Wait refusedToken \<and> Error refusedToken = Some ''connection refused'' \<and> \<not> connecting w"
    using t by (simp add: refusedToken_def)
  have "(\<exists>opts. options (client w) = Some opts \<and> \<not> AutoReconnect opts \<and>
        OnConnectionLost opts = Some ConnectionLostHandler) \<and>
      activeCycles (connectionLostHandler ''connection refused'' w) = Suc (activeCycles w) \<and>
      activeCycles (connect refusedToken w) = Suc (activeCycles w)"
    using created_client_reconnects_by_retry_loop_only
      [OF w, of "''connection refused''" w refusedToken] f
    by auto
  moreover have "activeCycles w = 0"
    using t by (simp add: activeCycles_def)
  moreover have "activeCycles (connectionLostHandler ''EOF'' w) = Suc (activeCycles w)"
    by (simp add: connectionLostHandler_arms)
  ultimately show ?thesis
    using w d by auto
qed

subsection \<open>Certificates that cannot be loaded\<close>

lemma Errorf_load: "Errorf ''error loading client keypair: %s'' e = ''error loading client keypair: '' @ e"
  by (simp add: Errorf_def)

lemma Errorf_parse: "Errorf ''error parsing client certificate: %s'' e = ''error parsing client certificate: '' @ e"
  by (simp add: Errorf_def)

lemma init_keypair_error:
  assumes "clientCertPath m = cfgClientCertFile config"
    and "privateKeyPath m = cfgPrivateKeyFile config"
    and "keypairError env config = Some msg"
  shows "initMQTTClientOptions env m = Returns (Inl msg)"
  using assms
  by (auto simp add: initMQTTClientOptions_def keypairError_def Let_def Errorf_load Errorf_parse
      split: if_splits sum.splits list.splits)

lemma setupLogger_fields:
  "clientCertPath (setupLogger env v w) = clientCertPath w \<and>
   privateKeyPath (setupLogger env v w) = privateKeyPath w \<and>
   caCertPath (setupLogger env v w) = caCertPath w \<and>
   tickers (setupLogger env v w) = tickers w"
  by (simp add: setupLogger_def logf_def Let_def split: option.splits)

lemma setupLogger_logged:
  "logged (setupLogger env (cfgVerbose config) (structLiteral config)) =
     (case GetLoggerInstance env of None \<Rightarrow> [] | Some e \<Rightarrow> [LogError e])"
  by (simp add: setupLogger_def logf_def structLiteral_def Let_def split: option.splits)

text \<open>
  Claim C4, as the code has it. When the configured key pair cannot be loaded or its
  certificate cannot be parsed, the failure is fatal at construction: \<open>initMQTTClientOptions\<close>
  returns the error and no options, \<open>CreateMQTTClient\<close> writes the error to the log and
  then hands the nil options to \<open>paho.NewClient\<close>, which panics. No client is returned, so
  whatever events would follow (\<open>Start\<close> among them), none is reached and no retry cycle
  is entered. The failure comes to the caller as that panic, with the error in the log,
  not as an error value: \<open>CreateMQTTClient\<close> never returns.
\<close>

theorem keypair_failure_fatal_at_construction:
  assumes "keypairError env config = Some msg"
  shows "initMQTTClientOptions env (setupLogger env (cfgVerbose config) (structLiteral config))
      = Returns (Inl msg) \<and>
    CreateMQTTClient env config =
      Panics ((case GetLoggerInstance env of None \<Rightarrow> [] | Some e \<Rightarrow> [LogError e]) @
        [LogErrorf ''unable to configure MQTT client: %s'' [Str msg]]) \<and>
    session env config evs =
      Panics ((case GetLoggerInstance env of None \<Rightarrow> [] | Some e \<Rightarrow> [LogError e]) @
        [LogErrorf ''unable to configure MQTT client: %s'' [Str msg]])"
proof -
  let ?m = "setupLogger env (cfgVerbose config) (structLiteral config)"
  have "clientCertPath ?m = cfgClientCertFile config"
    and "privateKeyPath ?m = cfgPrivateKeyFile config"
    by (simp_all add: setupLogger_fields) (simp_all add: structLiteral_def)
  then have i: "initMQTTClientOptions env ?m = Returns (Inl msg)"
    using assms by (rule init_keypair_error)
  have c: "CreateMQTTClient env config =
      Panics (logged ?m @ [LogErrorf ''unable to configure MQTT client: %s'' [Str msg]])"
    by (simp add: i CreateMQTTClient_def NewClient_def Let_def logf_def)
  show ?thesis
    using i c by (simp add: session_def setupLogger_logged)
qed

theorem keypair_failure_fatal_at_construction_witness:
  "keypairError exampleEnv badKeyConfig = Some ''error loading client keypair: no such file'' \<and>
   session exampleEnv badKeyConfig [EvStart exampleAPI refusedToken] =
     Panics [LogErrorf ''unable to configure MQTT client: %s''
       [Str ''error loading client keypair: no such file'']]"
proof -
  have k: "keypairError exampleEnv badKeyConfig =
     Some ''error loading client keypair: no such file''"
    by (simp add: keypairError_def exampleEnv_def badKeyConfig_def exampleConfig_def)
  have g: "GetLoggerInstance exampleEnv = None"
    by (simp add: exampleEnv_def)
  show ?thesis
    using keypair_failure_fatal_at_construction
      [OF k, of "[EvStart exampleAPI refusedToken]"] k g
    by simp
qed

text \<open>
  Claim C4 as stated fails for a key pair that is not on disk: the caller of
  \<open>CreateMQTTClient\<close> gets no error back. Construction ends in the panic of
  \<open>paho.NewClient\<close> on nil options, and the configuration error is a line of the log.
\<close>

theorem keypair_failure_is_a_panic:
  "CreateMQTTClient exampleEnv badKeyConfig =
     Panics [LogErrorf ''unable to configure MQTT client: %s''
       [Str ''error loading client keypair: no such file'']]"
  by (simp add: CreateMQTTClient_def initMQTTClientOptions_def setupLogger_def
      structLiteral_def exampleEnv_def exampleConfig_def badKeyConfig_def NewClient_def Let_def
      Errorf_def logf_def)

lemma init_without_keypair:
  assumes "clientCertPath m = '''' \<or> privateKeyPath m = ''''"
  shows "\<exists>opts. initMQTTClientOptions env m = Returns (Inr opts)"
  using assms by (auto simp add: initMQTTClientOptions_def Let_def)

lemma init_failure_independent_of_ca:
  "failureOf (initMQTTClientOptions (env\<lparr>ReadFile := rf, CertsFromPEM := cp\<rparr>) m) =
   failureOf (initMQTTClientOptions env m)"
proof (cases "clientCertPath m \<noteq> '''' \<and> privateKeyPath m \<noteq> ''''")
  case False
  then show ?thesis
    by (auto simp add: initMQTTClientOptions_def failureOf_def Let_def)
next
  case True
  show ?thesis
  proof (cases "LoadX509KeyPair env (clientCertPath m) (privateKeyPath m)")
    case (Inl e)
    with True show ?thesis
      by (simp add: initMQTTClientOptions_def failureOf_def Let_def)
  next
    case (Inr cert)
    show ?thesis
    proof (cases "Certificate cert")
      case Nil
      with True Inr show ?thesis
        by (simp add: initMQTTClientOptions_def failureOf_def Let_def)
    next
      case (Cons der rest)
      show ?thesis
      proof (cases "ParseCertificate env der")
        case (Inl e)
        with True Inr Cons show ?thesis
          by (simp add: initMQTTClientOptions_def failureOf_def Let_def)
      next
        case Inr2: (Inr leaf)
        with True Inr Cons show ?thesis
          by (simp add: initMQTTClientOptions_def failureOf_def Let_def)
      qed
    qed
  qed
qed

text \<open>The pool that \<open>initMQTTClientOptions\<close> installs when the trust anchor cannot be read
  or holds no certificate.\<close>

lemma init_empty_pool:
  assumes "caCertPath m \<noteq> ''''"
    and "case ReadFile env (caCertPath m) of Inl e \<Rightarrow> True | Inr pem \<Rightarrow> CertsFromPEM env pem = []"
    and "initMQTTClientOptions env m = Returns (Inr opts)"
  shows "\<exists>t. TLSConfig opts = Some t \<and> RootCAs t = Some []"
proof -
  let ?t = "\<lparr>RootCAs = None, Certificates = []\<rparr>"
  have pool: "(case ReadFile env (caCertPath m) of
        Inr pemCerts \<Rightarrow> ?t\<lparr>RootCAs := Some ([] @ CertsFromPEM env pemCerts)\<rparr>
      | Inl e \<Rightarrow> ?t\<lparr>RootCAs := Some []\<rparr>) = ?t\<lparr>RootCAs := Some []\<rparr>"
    using assms(2) by (simp split: sum.splits)
  show ?thesis
  proof (cases "clientCertPath m \<noteq> '''' \<and> privateKeyPath m \<noteq> ''''")
    case False
    with assms(1,3) show ?thesis
      by (auto simp add: initMQTTClientOptions_def AddBroker_def Let_def pool)
  next
    case True
    show ?thesis
    proof (cases "LoadX509KeyPair env (clientCertPath m) (privateKeyPath m)")
      case (Inl e)
      with True assms(3) show ?thesis
        by (simp add: initMQTTClientOptions_def Let_def)
    next
      case (Inr cert)
      show ?thesis
      proof (cases "Certificate cert")
        case Nil
        with True Inr assms(3) show ?thesis
          by (simp add: initMQTTClientOptions_def Let_def)
      next
        case (Cons der rest)
        show ?thesis
        proof (cases "ParseCertificate env der")
          case (Inl e)
          with True Inr Cons assms(3) show ?thesis
            by (simp add: initMQTTClientOptions_def Let_def)
        next
          case Inr2: (Inr leaf)
          with True Inr Cons assms(1,3) show ?thesis
            by (auto simp add: initMQTTClientOptions_def AddBroker_def Let_def pool)
        qed
      qed
    qed
  qed
qed

text \<open>
  Claim C6, as the code has it. When the configured trust-anchor file cannot be read, or
  is read and no certificate parses from it, the failure is ignored: whether
  \<open>initMQTTClientOptions\<close> fails does not depend on what the file system holds or on what
  the PEM parser finds; every client that construction returns has an empty root pool and
  no log line about it; and without a client key pair construction always returns such a
  client.
\<close>

theorem trust_anchor_failure_ignored:
  assumes "trustAnchorFails env config"
  shows "failureOf (initMQTTClientOptions (env\<lparr>ReadFile := rf, CertsFromPEM := cp\<rparr>)
            (setupLogger env (cfgVerbose config) (structLiteral config))) =
         failureOf (initMQTTClientOptions env
            (setupLogger env (cfgVerbose config) (structLiteral config))) \<and>
    (\<forall>w. CreateMQTTClient env config = Returns w \<longrightarrow>
       rootCAs w = Some [] \<and>
       logged w = (case GetLoggerInstance env of None \<Rightarrow> [] | Some e \<Rightarrow> [LogError e])) \<and>
    (cfgClientCertFile config = '''' \<or> cfgPrivateKeyFile config = '''' \<longrightarrow>
       (\<exists>w. CreateMQTTClient env config = Returns w \<and> rootCAs w = Some []))"
proof -
  let ?m = "setupLogger env (cfgVerbose config) (structLiteral config)"
  have p: "caCertPath ?m = cfgCaCertFile config"
    "clientCertPath ?m = cfgClientCertFile config"
    "privateKeyPath ?m = cfgPrivateKeyFile config"
    by (simp_all add: setupLogger_fields) (simp_all add: structLiteral_def)
  have f: "caCertPath ?m \<noteq> []"
    "case ReadFile env (caCertPath ?m) of Inl e \<Rightarrow> True | Inr pem \<Rightarrow> CertsFromPEM env pem = []"
    using assms p(1) by (simp_all add: trustAnchorFails_def)
  have from_created: "rootCAs w = Some [] \<and> logged w = logged ?m"
    if c: "CreateMQTTClient env config = Returns w" for w
  proof -
    obtain opts where opts: "options (client w) = Some opts"
      "initMQTTClientOptions env ?m = Returns (Inr opts)"
      using created_options [OF c] by blast
    obtain t where t: "TLSConfig opts = Some t" "RootCAs t = Some []"
      using init_empty_pool [OF f opts(2)] by auto
    have "w = ?m\<lparr>client := \<lparr>options = Some opts, calls = []\<rparr>\<rparr>"
      using created_from_options [OF opts(2)] c by simp
    then show ?thesis
      using t by (simp add: rootCAs_def)
  qed
  have 2: "\<forall>w. CreateMQTTClient env config = Returns w \<longrightarrow>
       rootCAs w = Some [] \<and>
       logged w = (case GetLoggerInstance env of None \<Rightarrow> [] | Some e \<Rightarrow> [LogError e])"
    using from_created by (simp add: setupLogger_logged)
  have 3: "\<exists>w. CreateMQTTClient env config = Returns w \<and> rootCAs w = Some []"
    if "cfgClientCertFile config = [] \<or> cfgPrivateKeyFile config = []"
  proof -
    have "clientCertPath ?m = [] \<or> privateKeyPath ?m = []"
      using that p by simp
    then obtain opts where i: "initMQTTClientOptions env ?m = Returns (Inr opts)"
      using init_without_keypair by blast
    let ?w = "?m\<lparr>client := \<lparr>options = Some opts, calls = []\<rparr>\<rparr>"
    have c: "CreateMQTTClient env config = Returns ?w"
      using i by (rule created_from_options)
    with from_created [of ?w] show ?thesis
      by blast
  qed
  show ?thesis
    using init_failure_independent_of_ca 2 3 by blast
qed

text \<open>A trust anchor that is not on disk, and one that is readable and holds no
  certificate.\<close>

theorem trust_anchor_failure_ignored_witness:
  "trustAnchorFails exampleEnv badCAConfig \<and>
   (\<exists>w. CreateMQTTClient exampleEnv badCAConfig = Returns w \<and> rootCAs w = Some []) \<and>
   trustAnchorFails exampleEnv garbageCAConfig \<and>
   ReadFile exampleEnv (cfgCaCertFile garbageCAConfig) = Inr [0] \<and>
   (\<exists>w. CreateMQTTClient exampleEnv garbageCAConfig = Returns w \<and> rootCAs w = Some [])"
proof -
  have b: "trustAnchorFails exampleEnv badCAConfig"
    by (simp add: trustAnchorFails_def badCAConfig_def exampleEnv_def)
  have g: "trustAnchorFails exampleEnv garbageCAConfig"
    by (simp add: trustAnchorFails_def garbageCAConfig_def exampleEnv_def)
  have r: "ReadFile exampleEnv (cfgCaCertFile garbageCAConfig) = Inr [0]"
    by (simp add: garbageCAConfig_def exampleEnv_def)
  have k: "cfgClientCertFile badCAConfig = []" "cfgClientCertFile garbageCAConfig = []"
    by (simp_all add: badCAConfig_def garbageCAConfig_def exampleConfig_def)
  show ?thesis
    using trust_anchor_failure_ignored [OF b] trust_anchor_failure_ignored [OF g] b g r k
    by blast
qed

text \<open>
  Claim C6 as stated fails, for the file that cannot be loaded and for the file that does
  not parse: construction returns a client with an empty root pool and logs nothing, and
  \<open>Start\<close> with a broker that refuses the connection enters the retry cycle.
\<close>

theorem trust_anchor_failure_not_fatal:
  "map_go rootCAs (CreateMQTTClient exampleEnv badCAConfig) = Returns (Some []) \<and>
   map_go logged (CreateMQTTClient exampleEnv badCAConfig) = Returns [] \<and>
   map_go activeCycles
     (session exampleEnv badCAConfig [EvStart exampleAPI refusedToken]) = Returns 1 \<and>
   map_go rootCAs (CreateMQTTClient exampleEnv garbageCAConfig) = Returns (Some []) \<and>
   map_go logged (CreateMQTTClient exampleEnv garbageCAConfig) = Returns [] \<and>
   map_go activeCycles
     (session exampleEnv garbageCAConfig [EvStart exampleAPI refusedToken]) = Returns 1"
  by (simp add: session_def CreateMQTTClient_def initMQTTClientOptions_def setupLogger_def
      structLiteral_def exampleEnv_def exampleConfig_def badCAConfig_def garbageCAConfig_def
      NewClient_def AddBroker_def Let_def
      Start_def connect_def retryConnect_def rootCAs_def
      invoke_def logf_def refusedToken_def activeCycles_def)

end
